theory Spec2Isabelle
  imports Main
begin

section \<open>Strings and values of the host language\<close>

text \<open>
  The program is a React component written in TypeScript. Its strings are modelled as
  HOL strings, read as sequences of code units (the model covers the code units below
  256). The functions of this section are the host's string operations the component
  calls: \<^verbatim>\<open>String.prototype.startsWith\<close>, \<^verbatim>\<open>includes\<close>, \<^verbatim>\<open>trim\<close>, the
  truthiness of a string, \<^verbatim>\<open>a || b\<close> on strings, and the decimal text a template
  literal gives a non-negative integer.
\<close>

definition NL :: string where
  "NL = [CHR 0x0A]"

fun startsWith :: "string \<Rightarrow> string \<Rightarrow> bool" where
  "startsWith s [] = True"
| "startsWith [] (p # ps) = False"
| "startsWith (c # cs) (p # ps) = (c = p \<and> startsWith cs ps)"

fun str_includes :: "string \<Rightarrow> string \<Rightarrow> bool" where
  "str_includes [] t = (t = [])"
| "str_includes (c # cs) t = (startsWith (c # cs) t \<or> str_includes cs t)"

definition isWhiteSpace :: "char \<Rightarrow> bool" where
  "isWhiteSpace c =
     (c \<in> set [CHR 0x09, CHR 0x0A, CHR 0x0B, CHR 0x0C, CHR 0x0D, CHR 0x20, CHR 0xA0])"

definition trim :: "string \<Rightarrow> string" where
  "trim s = rev (dropWhile isWhiteSpace (rev (dropWhile isWhiteSpace s)))"

definition truthy :: "string \<Rightarrow> bool" where
  "truthy s = (s \<noteq> [])"

definition or_else :: "string \<Rightarrow> string \<Rightarrow> string" where
  "or_else a b = (if truthy a then a else b)"

fun string_of_nat :: "nat \<Rightarrow> string" where
  "string_of_nat n =
     (if n < 10 then [''0123456789'' ! n]
      else string_of_nat (n div 10) @ [''0123456789'' ! (n mod 10)])"

declare string_of_nat.simps [simp del]

text \<open>
  A JavaScript \<^verbatim>\<open>Error\<close> object: the constructor it is an instance of (what
  \<^verbatim>\<open>instanceof\<close> tests), its \<^verbatim>\<open>name\<close>, its \<^verbatim>\<open>message\<close> and its
  \<^verbatim>\<open>stack\<close>, which an engine may leave undefined.
\<close>

datatype error_class = PlainError | TypeError | SyntaxError | URIError | OtherError

record js_error =
  e_class :: error_class
  e_name :: string
  e_message :: string
  e_stack :: "string option"

text \<open>
  What \<^verbatim>\<open>formatErrorDetails\<close> can be given (its parameter has type \<^verbatim>\<open>any\<close>): an
  \<^verbatim>\<open>Error\<close> instance, another object, given by its enumerable keys, each with the text
  \<^verbatim>\<open>JSON.stringify\<close> renders for its value (\<open>None\<close> when \<^verbatim>\<open>JSON.stringify\<close> throws),
  or any other value, given by the text \<^verbatim>\<open>String(error)\<close> renders.
\<close>

datatype js_value =
    ErrorInstance js_error
  | ObjectValue "(string \<times> string option) list"
  | OtherValue string

section \<open>The data of the component\<close>

datatype HttpMethod = GET | POST | PUT | DELETE | PATCH | OPTIONS | HEAD

text \<open>The \<^verbatim>\<open>error\<close> block of \<^verbatim>\<open>ApiResponse\<close>; an optional field is an option.\<close>

record api_error =
  message :: string
  stack :: "string option"
  code :: "string option"
  type_name :: "string option"
  details :: "string option"

text \<open>
  The field \<^verbatim>\<open>data: any\<close> of \<^verbatim>\<open>ApiResponse\<close> holds either a decoded JSON value, of
  the host's type \<open>'j\<close>, or a string.
\<close>

datatype 'j body_data = Json 'j | Text string

record 'j ApiResponse =
  status :: nat
  statusText :: string
  headers :: "string \<rightharpoonup> string"
  data :: "'j body_data"
  time :: int
  error :: "api_error option"

text \<open>The \<^verbatim>\<open>RequestInit\<close> object \<^verbatim>\<open>options\<close> that \<^verbatim>\<open>sendRequest\<close> builds.\<close>

record RequestInit =
  o_method :: HttpMethod
  o_headers :: "(string \<times> string) list"
  o_body :: "string option"

text \<open>
  The \<^verbatim>\<open>Response\<close> object that \<^verbatim>\<open>fetch\<close> resolves with, as far as the component
  reads it: \<^verbatim>\<open>status\<close>, \<^verbatim>\<open>statusText\<close>, the pairs \<^verbatim>\<open>headers.forEach\<close> visits in
  order, \<^verbatim>\<open>headers.get\<close>, and the outcomes of \<^verbatim>\<open>json()\<close> and \<^verbatim>\<open>text()\<close>, each
  either a value or the error the promise rejects with.
\<close>

record 'j Response =
  res_status :: nat
  res_statusText :: string
  res_headers_forEach :: "(string \<times> string) list"
  res_headers_get :: "string \<Rightarrow> string option"
  res_json :: "js_error + 'j"
  res_text :: "js_error + string"

text \<open>
  \<^verbatim>\<open>Response.ok\<close> is not a field of its own: the Fetch standard defines it as the
  status lying in the range 200 to 299.
\<close>

definition res_ok :: "'j Response \<Rightarrow> bool" where
  "res_ok res = (200 \<le> res_status res \<and> res_status res \<le> 299)"

text \<open>
  The host environment of one run of \<^verbatim>\<open>sendRequest\<close>. None of it is code of the
  component, so it is a parameter: whether \<^verbatim>\<open>new URL(url)\<close> succeeds,
  \<^verbatim>\<open>JSON.parse\<close>, \<^verbatim>\<open>fetch\<close>, the values of the successive \<^verbatim>\<open>Date.now()\<close> calls
  (\<open>now 0\<close> is the first), and the stack text the engine attaches to an error built with
  \<^verbatim>\<open>new Error(msg)\<close>.
\<close>

record 'j host =
  url_ok :: "string \<Rightarrow> bool"
  json_parse :: "string \<Rightarrow> js_error + 'j"
  fetch :: "string \<Rightarrow> RequestInit \<Rightarrow> js_error + 'j Response"
  now :: "nat \<Rightarrow> int"
  new_error_stack :: "string \<Rightarrow> string option"

record toast =
  title :: string
  description :: string
  variant :: "string option"

text \<open>
  The state \<^verbatim>\<open>sendRequest\<close> reads and writes: the \<^verbatim>\<open>useState\<close> cells of
  \<^verbatim>\<open>ApiClient\<close>, the toasts shown so far, and the log of the network calls issued so
  far (the arguments of each \<^verbatim>\<open>fetch\<close>). The certificate cell and the console are left
  out: the certificate is only ever written to the console.
\<close>

record 'j state =
  url :: string
  "method" :: HttpMethod
  body :: string
  loading :: bool
  response :: "'j ApiResponse option"
  errorDetails :: "string option"
  toasts :: "toast list"
  fetched :: "(string \<times> RequestInit) list"

section \<open>formatErrorDetails\<close>

text \<open>
  The three branches of the source: an \<^verbatim>\<open>Error\<close> instance (name and message, the
  stack when it is truthy, then a paragraph for \<^verbatim>\<open>TypeError\<close>, \<^verbatim>\<open>SyntaxError\<close> or
  \<^verbatim>\<open>URIError\<close>), another non-null object (one line per key), anything else.
\<close>

definition class_note :: "error_class \<Rightarrow> string" where
  "class_note c =
     (if c = TypeError then
        NL @ NL @ ''This is a TypeError, which often occurs when:''
        @ NL @ ''- Trying to access properties of undefined or null''
        @ NL @ ''- Calling a non-function value''
        @ NL @ ''- Incompatible value types in an operation''
      else if c = SyntaxError then
        NL @ NL @ ''This is a SyntaxError, which typically occurs when:''
        @ NL @ ''- JSON parsing failed due to malformed data''
        @ NL @ ''- Invalid syntax in dynamic code evaluation''
      else if c = URIError then
        NL @ NL @ ''This is a URIError, which occurs when:''
        @ NL @ ''- Malformed URI components in encoding/decoding functions''
      else [])"

definition formatErrorDetails :: "js_value \<Rightarrow> string" where
  "formatErrorDetails err =
     (case err of
        ErrorInstance e \<Rightarrow>
          ''Error Type: '' @ e_name e @ NL @ ''Message: '' @ e_message e
          @ (case e_stack e of
               None \<Rightarrow> []
             | Some s \<Rightarrow> if truthy s then NL @ NL @ ''Stack Trace:'' @ NL @ s else [])
          @ class_note (e_class e)
      | ObjectValue props \<Rightarrow>
          ''Error Object Properties:'' @ NL
          @ concat (map (\<lambda>(key, v).
              (case v of
                 Some txt \<Rightarrow> key @ '': '' @ txt @ NL
               | None \<Rightarrow> key @ '': [Circular or non-serializable value]'' @ NL)) props)
      | OtherValue txt \<Rightarrow> ''Unexpected error: '' @ txt)"

section \<open>sendRequest\<close>

text \<open>\<^verbatim>\<open>new Error(msg)\<close>, as the source throws it.\<close>

definition new_Error :: "'j host \<Rightarrow> string \<Rightarrow> js_error" where
  "new_Error h msg =
     \<lparr>e_class = PlainError, e_name = ''Error'', e_message = msg,
      e_stack = new_error_stack h msg\<rparr>"

text \<open>
  The first part of the \<^verbatim>\<open>try\<close> block, up to the call of \<^verbatim>\<open>fetch\<close>: the URL is
  parsed, \<^verbatim>\<open>options\<close> is built with its \<^verbatim>\<open>Content-Type\<close> header, and for a method
  other than GET and HEAD with a truthy body the body is parsed as JSON and, when that
  succeeds, attached as it is. \<open>Inl\<close> is the error thrown.
\<close>

definition build_options :: "'j host \<Rightarrow> 'j state \<Rightarrow> js_error + RequestInit" where
  "build_options h st =
     (if \<not> url_ok h (url st) then
        Inl (new_Error h (''Invalid URL: '' @ url st
               @ ''. Make sure to include the protocol (http:// or https://).''))
      else
        let options = \<lparr>o_method = method st,
                       o_headers = [(''Content-Type'', ''application/json'')],
                       o_body = None\<rparr>
        in if method st \<noteq> GET \<and> method st \<noteq> HEAD \<and> truthy (body st) then
             (case json_parse h (body st) of
                Inr _ \<Rightarrow> Inr (options\<lparr>o_body := Some (body st)\<rparr>)
              | Inl parseError \<Rightarrow>
                  Inl (new_Error h (''Invalid JSON in request body: '' @ e_message parseError
                         @ ''. Please check your JSON syntax.'')))
           else Inr options)"

text \<open>
  The header object filled by \<^verbatim>\<open>res.headers.forEach\<close> with \<^verbatim>\<open>headers[key] = value\<close>:
  a later pair overwrites an earlier one of the same name. \<^verbatim>\<open>headers\<close> is a plain
  object, so the name \<^verbatim>\<open>__proto__\<close> reaches the setter inherited from
  \<^verbatim>\<open>Object.prototype\<close>, which ignores a string: such a pair leaves the object as it
  is.
\<close>

definition collect_headers :: "(string \<times> string) list \<Rightarrow> (string \<rightharpoonup> string)" where
  "collect_headers kvs =
     foldl (\<lambda>hs (key, v). if key = ''__proto__'' then hs else hs(key \<mapsto> v)) Map.empty kvs"

text \<open>
  The decoding of the response body, with its own \<^verbatim>\<open>try\<close>: an error of
  \<^verbatim>\<open>res.json()\<close> or \<^verbatim>\<open>res.text()\<close> becomes the text \<^verbatim>\<open>Failed to parse response: ...\<close>,
  and an error of the inner \<^verbatim>\<open>JSON.parse\<close> is dropped, the text being kept.
\<close>

definition decode_body :: "'j host \<Rightarrow> 'j Response \<Rightarrow> 'j body_data" where
  "decode_body h res =
     (let contentType = res_headers_get res ''content-type''
      in if (case contentType of
               None \<Rightarrow> False
             | Some ct \<Rightarrow> truthy ct \<and> str_includes ct ''application/json'') then
           (case res_json res of
              Inr j \<Rightarrow> Json j
            | Inl parseError \<Rightarrow> Text (''Failed to parse response: '' @ e_message parseError))
         else
           (case res_text res of
              Inr txt \<Rightarrow>
                if startsWith (trim txt) ''{'' \<or> startsWith (trim txt) ''['' then
                  (case json_parse h txt of Inr j \<Rightarrow> Json j | Inl _ \<Rightarrow> Text txt)
                else Text txt
            | Inl parseError \<Rightarrow> Text (''Failed to parse response: '' @ e_message parseError)))"

text \<open>The template literal given to \<^verbatim>\<open>setErrorDetails\<close> when \<^verbatim>\<open>res.ok\<close> is false.\<close>

definition http_error_details :: "nat \<Rightarrow> string \<Rightarrow> string" where
  "http_error_details s st_text =
     ''HTTP Error '' @ string_of_nat s @ '' ('' @ st_text
       @ ''): The server returned an error response. '' @ NL
     @ ''        '' @ NL
     @ ''Common causes for HTTP '' @ string_of_nat s @ '':'' @ NL
     @ (if 400 \<le> s \<and> s < 500 then ''- Client-side error (invalid request parameters, authentication issues, etc.)'' else []) @ NL
     @ (if 500 \<le> s then ''- Server-side error (internal errors, service unavailable, etc.)'' else []) @ NL
     @ (if s = 401 then ''- Authentication required or failed'' else []) @ NL
     @ (if s = 403 then ''- Insufficient permissions to access the resource'' else []) @ NL
     @ (if s = 404 then ''- Resource not found at the specified endpoint'' else []) @ NL
     @ (if s = 429 then ''- Rate limit exceeded (too many requests)'' else []) @ NL
     @ (if s = 500 then ''- Internal server error (generic server failure)'' else []) @ NL
     @ (if s = 502 then ''- Bad gateway (upstream server received an invalid response)'' else []) @ NL
     @ (if s = 503 then ''- Service unavailable (server is overloaded or down for maintenance)'' else []) @ NL
     @ (if s = 504 then ''- Gateway timeout (server didn'' @ [CHR 0x27] @ ''t receive timely response from upstream server)'' else [])"

text \<open>
  The rest of the \<^verbatim>\<open>try\<close> block, once \<^verbatim>\<open>fetch\<close> has resolved with \<open>res\<close>:
  \<open>startTime\<close> is the first clock value and \<^verbatim>\<open>endTime\<close> the second.
\<close>

definition on_response :: "'j host \<Rightarrow> 'j Response \<Rightarrow> 'j state \<Rightarrow> 'j state" where
  "on_response h res st =
     (let startTime = now h 0;
          endTime = now h 1;
          st1 = st\<lparr>response := Some
                  \<lparr>status = res_status res,
                   statusText = res_statusText res,
                   headers = collect_headers (res_headers_forEach res),
                   data = decode_body h res,
                   time = endTime - startTime,
                   error = None\<rparr>\<rparr>
      in if \<not> res_ok res then
           st1\<lparr>errorDetails := Some (http_error_details (res_status res) (res_statusText res))\<rparr>
         else st1)"

text \<open>The \<^verbatim>\<open>catch\<close> block: \<open>startTime\<close> is the first clock value, the clock is read again.\<close>

definition on_error :: "'j host \<Rightarrow> js_error \<Rightarrow> 'j state \<Rightarrow> 'j state" where
  "on_error h errorObj st =
     (let startTime = now h 0;
          detailedError = formatErrorDetails (ErrorInstance errorObj);
          msg = or_else (e_message errorObj) ''Unknown error occurred''
      in st\<lparr>errorDetails := Some detailedError,
            response := Some
              \<lparr>status = 0,
               statusText = ''Error'',
               headers = Map.empty,
               data = Text msg,
               time = now h 1 - startTime,
               error = Some \<lparr>message = msg,
                             stack = e_stack errorObj,
                             code = None,
                             type_name = Some (e_name errorObj),
                             details = Some detailedError\<rparr>\<rparr>,
            toasts := toasts st @
              [\<lparr>title = ''Request failed'', description = msg,
                variant = Some ''destructive''\<rparr>]\<rparr>)"

text \<open>
  The whole function. An empty URL is falsy: one toast and an early return. Otherwise
  the three cells are reset, the \<^verbatim>\<open>try\<close> block runs, its error (from building the
  options or from \<^verbatim>\<open>fetch\<close>) goes to the \<^verbatim>\<open>catch\<close> block, and \<^verbatim>\<open>finally\<close> clears
  \<^verbatim>\<open>loading\<close>. The call of \<^verbatim>\<open>fetch\<close> is logged in \<open>fetched\<close> before its outcome is
  known.
\<close>

definition sendRequest :: "'j host \<Rightarrow> 'j state \<Rightarrow> 'j state" where
  "sendRequest h st =
     (if \<not> truthy (url st) then
        st\<lparr>toasts := toasts st @
             [\<lparr>title = ''URL is required'',
               description = ''Please enter a URL to send the request'',
               variant = Some ''destructive''\<rparr>]\<rparr>
      else
        let st0 = st\<lparr>loading := True, response := None, errorDetails := None\<rparr>;
            st' =
              (case build_options h st0 of
                 Inl e \<Rightarrow> on_error h e st0
               | Inr options \<Rightarrow>
                   let st1 = st0\<lparr>fetched := fetched st0 @ [(url st0, options)]\<rparr>
                   in (case fetch h (url st0) options of
                         Inl e \<Rightarrow> on_error h e st1
                       | Inr res \<Rightarrow> on_response h res st1))
        in st'\<lparr>loading := False\<rparr>)"

section \<open>ResponseViewer: the error tab\<close>

text \<open>
  The block \<^verbatim>\<open>getNetworkErrorHelp\<close> returns, by its content: the heading, the
  description, the list of possible causes and the list of troubleshooting steps.
\<close>

record help_note =
  note_heading :: string
  note_description :: string
  note_causes :: "string list"
  note_steps :: "string list"

definition network_help :: help_note where
  "network_help =
     \<lparr>note_heading = ''Network Connection Error'',
      note_description = [CHR 0x22] @ ''Failed to fetch'' @ [CHR 0x22]
        @ '' indicates a network-level issue occurred when attempting to connect to the server.'',
      note_causes =
        [''No internet connection'',
         ''Server is unreachable or down'',
         ''CORS (Cross-Origin Resource Sharing) policy restriction'',
         ''Invalid SSL certificate for HTTPS requests'',
         ''Firewall or proxy blocking the connection'',
         ''DNS resolution failure''],
      note_steps =
        [''Check your internet connection'',
         ''Verify the URL is correct and the server is running'',
         ''Check if the API requires CORS headers or if you need to use a proxy'',
         ''Verify SSL certificates if using HTTPS'',
         ''Try the request in a tool like Postman or cURL to isolate browser issues'',
         ''Check browser console for additional network error details'']\<rparr>"

definition getNetworkErrorHelp :: "string \<Rightarrow> help_note option" where
  "getNetworkErrorHelp errorMessage =
     (if str_includes errorMessage ''Failed to fetch'' then Some network_help else None)"

text \<open>
  What the error tab renders: the message always, then type, code, stack and details,
  each only when truthy, then the help block. The tab exists only when the response has
  an \<^verbatim>\<open>error\<close> block.
\<close>

record error_tab =
  tab_message :: string
  tab_type :: "string option"
  tab_code :: "string option"
  tab_stack :: "string option"
  tab_details :: "string option"
  tab_help :: "help_note option"

definition when_truthy :: "string option \<Rightarrow> string option" where
  "when_truthy v = (case v of None \<Rightarrow> None | Some s \<Rightarrow> if truthy s then Some s else None)"

definition render_error_tab :: "'j ApiResponse option \<Rightarrow> error_tab option" where
  "render_error_tab resp =
     (case resp of
        None \<Rightarrow> None
      | Some r \<Rightarrow>
          (case error r of
             None \<Rightarrow> None
           | Some e \<Rightarrow>
               Some \<lparr>tab_message = message e,
                     tab_type = when_truthy (type_name e),
                     tab_code = when_truthy (code e),
                     tab_stack = when_truthy (stack e),
                     tab_details = when_truthy (details e),
                     tab_help = getNetworkErrorHelp (message e)\<rparr>))"

section \<open>The status predicates, as the specification lists them\<close>

text \<open>
  The table the specification describes: each status predicate with its text, in the
  order of the source (4xx, 5xx, 401, 403, 404, 429, 500, 502, 503, 504). The
  server-side predicate is the source's \<^verbatim>\<open>status >= 500\<close>. It is compared below with
  the template literal of \<^verbatim>\<open>sendRequest\<close>.
\<close>

definition status_predicates :: "((nat \<Rightarrow> bool) \<times> string) list" where
  "status_predicates =
     [(\<lambda>s. 400 \<le> s \<and> s < 500,
         ''- Client-side error (invalid request parameters, authentication issues, etc.)''),
      (\<lambda>s. 500 \<le> s,
         ''- Server-side error (internal errors, service unavailable, etc.)''),
      (\<lambda>s. s = 401, ''- Authentication required or failed''),
      (\<lambda>s. s = 403, ''- Insufficient permissions to access the resource''),
      (\<lambda>s. s = 404, ''- Resource not found at the specified endpoint''),
      (\<lambda>s. s = 429, ''- Rate limit exceeded (too many requests)''),
      (\<lambda>s. s = 500, ''- Internal server error (generic server failure)''),
      (\<lambda>s. s = 502, ''- Bad gateway (upstream server received an invalid response)''),
      (\<lambda>s. s = 503,
         ''- Service unavailable (server is overloaded or down for maintenance)''),
      (\<lambda>s. s = 504,
         ''- Gateway timeout (server didn'' @ [CHR 0x27]
           @ ''t receive timely response from upstream server)'')]"

definition explanation_heading :: "nat \<Rightarrow> string \<Rightarrow> string" where
  "explanation_heading s st_text =
     ''HTTP Error '' @ string_of_nat s @ '' ('' @ st_text
       @ ''): The server returned an error response. '' @ NL
     @ ''        '' @ NL
     @ ''Common causes for HTTP '' @ string_of_nat s @ '':''"

text \<open>
  The failure the specification calls \<^verbatim>\<open>InvalidUrl\<close>: a response record with status 0
  whose error block carries the message the source builds around the offending string.
  \<^verbatim>\<open>InvalidRequestBody\<close> likewise, around the parser's message.
\<close>

definition reports_InvalidUrl :: "'j state \<Rightarrow> string \<Rightarrow> bool" where
  "reports_InvalidUrl st u =
     (case response st of
        None \<Rightarrow> False
      | Some r \<Rightarrow>
          status r = 0 \<and>
          (case error r of
             None \<Rightarrow> False
           | Some e \<Rightarrow>
               message e = ''Invalid URL: '' @ u
                 @ ''. Make sure to include the protocol (http:// or https://).''))"

definition reports_InvalidRequestBody :: "'j state \<Rightarrow> string \<Rightarrow> bool" where
  "reports_InvalidRequestBody st parser_message =
     (case response st of
        None \<Rightarrow> False
      | Some r \<Rightarrow>
          status r = 0 \<and>
          (case error r of
             None \<Rightarrow> False
           | Some e \<Rightarrow>
               message e = ''Invalid JSON in request body: '' @ parser_message
                 @ ''. Please check your JSON syntax.''))"

section \<open>A sample host\<close>

text \<open>
  A small host on which the model runs: JSON values as a datatype, a parser that knows
  three texts, a URL check on the scheme, and a network with a few servers, one of which
  sends a header named \<^verbatim>\<open>__proto__\<close>.
\<close>

datatype json =
    JNull | JBool bool | JNumber int | JString string
  | JArray "json list" | JObject "(string \<times> json) list"

definition sample_response :: "nat \<Rightarrow> string \<Rightarrow> string \<Rightarrow> string \<Rightarrow> json Response" where
  "sample_response s st_text ctype txt =
     \<lparr>res_status = s,
      res_statusText = st_text,
      res_headers_forEach = [(''content-type'', ctype)],
      res_headers_get = (\<lambda>k. if k = ''content-type'' then Some ctype else None),
      res_json = (if txt = ''[1]'' then Inr (JArray [JNumber 1])
                  else Inl \<lparr>e_class = SyntaxError, e_name = ''SyntaxError'',
                            e_message = ''Unexpected end of JSON input'', e_stack = None\<rparr>),
      res_text = Inr txt\<rparr>"

definition proto_response :: "json Response" where
  "proto_response =
     \<lparr>res_status = 404,
      res_statusText = ''Not Found'',
      res_headers_forEach = [(''__proto__'', ''x''), (''content-type'', ''text/plain'')],
      res_headers_get = (\<lambda>k. if k = ''__proto__'' then Some ''x''
                             else if k = ''content-type'' then Some ''text/plain'' else None),
      res_json = Inl \<lparr>e_class = SyntaxError, e_name = ''SyntaxError'',
                       e_message = ''Unexpected end of JSON input'', e_stack = None\<rparr>,
      res_text = Inr ''gone''\<rparr>"

definition sample_host :: "json host" where
  "sample_host =
     \<lparr>url_ok = (\<lambda>u. startsWith u ''http://'' \<or> startsWith u ''https://''),
      json_parse = (\<lambda>s.
        if s = ''[1]'' \<or> s = '' [1]'' then Inr (JArray [JNumber 1])
        else if s = ''{}'' then Inr (JObject [])
        else Inl \<lparr>e_class = SyntaxError, e_name = ''SyntaxError'',
                  e_message = ''Unexpected end of JSON input'', e_stack = None\<rparr>),
      fetch = (\<lambda>u opts.
        if u = ''http://down.test'' then
          Inl \<lparr>e_class = TypeError, e_name = ''TypeError'',
                e_message = ''Failed to fetch'', e_stack = Some ''TypeError: Failed to fetch''\<rparr>
        else if u = ''http://lost.test'' then
          Inl \<lparr>e_class = TypeError, e_name = ''TypeError'',
                e_message = ''Load failed'', e_stack = None\<rparr>
        else if u = ''http://choices.test'' then
          Inr (sample_response 300 ''Multiple Choices'' ''text/plain'' ''see other'')
        else if u = ''http://proto.test'' then Inr proto_response
        else if u = ''http://missing.test'' then
          Inr (sample_response 404 ''Not Found'' ''application/json'' ''[1]'')
        else
          Inr (sample_response 200 ''OK'' ''text/plain'' '' [1]'')),
      now = (\<lambda>k. if k = 0 then 1000 else 1042),
      new_error_stack = (\<lambda>msg. None)\<rparr>"

definition sample_state :: "string \<Rightarrow> HttpMethod \<Rightarrow> string \<Rightarrow> json state" where
  "sample_state u m b =
     \<lparr>url = u, method = m, body = b, loading = False, response = None,
      errorDetails = None, toasts = [], fetched = []\<rparr>"

text \<open>A state in which an earlier response and its explanation are still displayed.\<close>

definition displayed_state :: "string \<Rightarrow> HttpMethod \<Rightarrow> string \<Rightarrow> json state" where
  "displayed_state u m b =
     (sample_state u m b)
       \<lparr>response := Some \<lparr>status = 500, statusText = ''Internal Server Error'',
                          headers = Map.empty, data = Text ''boom'', time = 7,
                          error = None\<rparr>,
        errorDetails := Some ''earlier details''\<rparr>"

section \<open>Properties\<close>

subsection \<open>Strings\<close>

text \<open>
  \<open>startsWith\<close> and \<open>str_includes\<close> compute what they are meant to: a prefix, and
  an occurrence anywhere.
\<close>

lemma startsWith_iff: "startsWith s t \<longleftrightarrow> (\<exists>q. s = t @ q)"
  by (induction s t rule: startsWith.induct) auto

lemma str_includes_iff: "str_includes s t \<longleftrightarrow> (\<exists>p q. s = p @ t @ q)"
proof (induction s)
  case Nil
  then show ?case by auto
next
  case (Cons c cs)
  show ?case
  proof
    assume "str_includes (c # cs) t"
    then consider "startsWith (c # cs) t" | "str_includes cs t" by auto
    then show "\<exists>p q. c # cs = p @ t @ q"
    proof cases
      case 1
      then obtain q where "c # cs = t @ q" using startsWith_iff by blast
      then have "c # cs = [] @ t @ q" by simp
      then show ?thesis by blast
    next
      case 2
      then obtain p q where "cs = p @ t @ q" using Cons.IH by blast
      then have "c # cs = (c # p) @ t @ q" by simp
      then show ?thesis by blast
    qed
  next
    assume "\<exists>p q. c # cs = p @ t @ q"
    then obtain p q where pq: "c # cs = p @ t @ q" by blast
    show "str_includes (c # cs) t"
    proof (cases p)
      case Nil
      with pq have "startsWith (c # cs) t" using startsWith_iff by auto
      then show ?thesis by simp
    next
      case (Cons a p')
      with pq have "cs = p' @ t @ q" by simp
      then have "str_includes cs t" using Cons.IH by blast
      then show ?thesis by simp
    qed
  qed
qed

text \<open>
  \<open>trim\<close> removes white space at both ends, so the trimmed text starts with a given
  character that is not white space exactly when that is the first such character of
  the text.
\<close>

lemma dropWhile_snoc_keeps:
  "\<not> P x \<Longrightarrow> \<exists>zs. dropWhile P (ys @ [x]) = zs @ [x]"
proof (induction ys)
  case Nil
  then show ?case by simp
next
  case (Cons y ys)
  then obtain zs where zs: "dropWhile P (ys @ [x]) = zs @ [x]" by blast
  show ?case
  proof (cases "P y")
    case True
    then show ?thesis using zs by simp
  next
    case False
    then have "dropWhile P ((y # ys) @ [x]) = (y # ys) @ [x]" by simp
    then show ?thesis by blast
  qed
qed

lemma trim_startsWith:
  assumes "\<not> isWhiteSpace c"
  shows "startsWith (trim s) [c] \<longleftrightarrow> (\<exists>rest. dropWhile isWhiteSpace s = c # rest)"
proof (cases "dropWhile isWhiteSpace s")
  case Nil
  have t: "trim s = []" unfolding trim_def Nil by simp
  have "\<not> startsWith (trim s) [c]" unfolding t by simp
  moreover have "\<not> (\<exists>rest. dropWhile isWhiteSpace s = c # rest)" unfolding Nil by simp
  ultimately show ?thesis by blast
next
  case (Cons x rest)
  then have "\<not> isWhiteSpace x"
    using hd_dropWhile [of isWhiteSpace s] by simp
  then obtain zs where "dropWhile isWhiteSpace (rev rest @ [x]) = zs @ [x]"
    using dropWhile_snoc_keeps [of isWhiteSpace x "rev rest"] by blast
  then have "trim s = x # rev zs"
    unfolding trim_def Cons by simp
  then have "startsWith (trim s) [c] \<longleftrightarrow> x = c"
    by auto
  then show ?thesis
    unfolding Cons by simp
qed

lemma trim_example: "trim ('' '' @ [CHR 0x09] @ ''{ a }'' @ [CHR 0x0A]) = ''{ a }''"
  by (simp add: trim_def isWhiteSpace_def)

subsection \<open>The paths through sendRequest\<close>

lemma build_options_reset:
  "build_options h (st\<lparr>loading := a, response := b, errorDetails := c\<rparr>) = build_options h st"
  by (simp add: build_options_def Let_def split: sum.splits)

lemma sendRequest_empty:
  "url st = [] \<Longrightarrow> sendRequest h st = st\<lparr>toasts := toasts st @
             [\<lparr>title = ''URL is required'',
               description = ''Please enter a URL to send the request'',
               variant = Some ''destructive''\<rparr>]\<rparr>"
  by (simp add: sendRequest_def truthy_def)

lemma sendRequest_thrown:
  assumes "url st \<noteq> []" and "build_options h st = Inl e"
  shows "sendRequest h st =
    (on_error h e (st\<lparr>loading := True, response := None, errorDetails := None\<rparr>))\<lparr>loading := False\<rparr>"
  using assms by (simp add: sendRequest_def truthy_def build_options_reset)

lemma sendRequest_rejected:
  assumes "url st \<noteq> []" and "build_options h st = Inr opts" and "fetch h (url st) opts = Inl e"
  shows "sendRequest h st =
    (on_error h e (st\<lparr>loading := True, response := None, errorDetails := None,
        fetched := fetched st @ [(url st, opts)]\<rparr>))\<lparr>loading := False\<rparr>"
  using assms by (simp add: sendRequest_def truthy_def build_options_reset)

lemma sendRequest_resolved:
  assumes "url st \<noteq> []" and "build_options h st = Inr opts" and "fetch h (url st) opts = Inr res"
  shows "sendRequest h st =
    (on_response h res (st\<lparr>loading := True, response := None, errorDetails := None,
        fetched := fetched st @ [(url st, opts)]\<rparr>))\<lparr>loading := False\<rparr>"
  using assms by (simp add: sendRequest_def truthy_def build_options_reset)

lemma response_on_error:
  "response (on_error h e st) = Some
              \<lparr>status = 0,
               statusText = ''Error'',
               headers = Map.empty,
               data = Text (or_else (e_message e) ''Unknown error occurred''),
               time = now h 1 - now h 0,
               error = Some \<lparr>message = or_else (e_message e) ''Unknown error occurred'',
                             stack = e_stack e,
                             code = None,
                             type_name = Some (e_name e),
                             details = Some (formatErrorDetails (ErrorInstance e))\<rparr>\<rparr>"
  by (simp add: on_error_def Let_def)

lemma fetched_on_error: "fetched (on_error h e st) = fetched st"
  by (simp add: on_error_def Let_def)

lemma errorDetails_on_error:
  "errorDetails (on_error h e st) = Some (formatErrorDetails (ErrorInstance e))"
  by (simp add: on_error_def Let_def)

lemma response_on_response:
  "response (on_response h res st) = Some
                  \<lparr>status = res_status res,
                   statusText = res_statusText res,
                   headers = collect_headers (res_headers_forEach res),
                   data = decode_body h res,
                   time = now h 1 - now h 0,
                   error = None\<rparr>"
  by (simp add: on_response_def Let_def)

lemma fetched_on_response: "fetched (on_response h res st) = fetched st"
  by (simp add: on_response_def Let_def)

lemma errorDetails_on_response:
  "errorDetails (on_response h res st) =
     (if res_ok res then errorDetails st
      else Some (http_error_details (res_status res) (res_statusText res)))"
  by (simp add: on_response_def Let_def)

subsection \<open>The empty URL\<close>

text \<open>
  C9. When the URL is the empty string, \<^verbatim>\<open>sendRequest\<close> returns early: the response
  cell, the error details, the loading flag and the log of network calls are what they
  were, and the only effect is the toast "URL is required".
\<close>

theorem empty_url_returns_early:
  assumes "url st = []"
  shows "response (sendRequest h st) = response st
       \<and> errorDetails (sendRequest h st) = errorDetails st
       \<and> fetched (sendRequest h st) = fetched st
       \<and> loading (sendRequest h st) = loading st
       \<and> toasts (sendRequest h st) = toasts st @
             [\<lparr>title = ''URL is required'',
               description = ''Please enter a URL to send the request'',
               variant = Some ''destructive''\<rparr>]"
  using assms by (simp add: sendRequest_empty)

theorem empty_url_returns_early_witness:
  "response (sendRequest sample_host (displayed_state [] POST ''[1]''))
     = response (displayed_state [] POST ''[1]'')
   \<and> errorDetails (sendRequest sample_host (displayed_state [] POST ''[1]''))
     = Some ''earlier details''
   \<and> fetched (sendRequest sample_host (displayed_state [] POST ''[1]'')) = []"
  using empty_url_returns_early [of "displayed_state [] POST ''[1]''" sample_host]
  by (simp add: displayed_state_def sample_state_def)

subsection \<open>Errors thrown before the network call\<close>

lemma build_options_invalid_url:
  "\<not> url_ok h (url st) \<Longrightarrow> build_options h st =
     Inl (new_Error h (''Invalid URL: '' @ url st
               @ ''. Make sure to include the protocol (http:// or https://).''))"
  by (simp add: build_options_def)

lemma build_options_invalid_body:
  assumes "url_ok h (url st)" and "method st \<noteq> GET" and "method st \<noteq> HEAD"
    and "body st \<noteq> []" and "json_parse h (body st) = Inl pe"
  shows "build_options h st =
     Inl (new_Error h (''Invalid JSON in request body: '' @ e_message pe
                         @ ''. Please check your JSON syntax.''))"
  using assms by (simp add: build_options_def Let_def truthy_def)

lemma build_options_Inr:
  assumes "build_options h st = Inr opts"
  shows "opts = \<lparr>o_method = method st,
                 o_headers = [(''Content-Type'', ''application/json'')],
                 o_body = (if method st \<noteq> GET \<and> method st \<noteq> HEAD \<and> body st \<noteq> []
                           then Some (body st) else None)\<rparr>"
  using assms
  by (auto simp add: build_options_def Let_def truthy_def split: if_splits sum.splits)

lemma or_else_nonempty: "m \<noteq> [] \<Longrightarrow> or_else m d = m"
  by (simp add: or_else_def truthy_def)

lemma fetched_thrown:
  assumes "build_options h st = Inl e"
  shows "fetched (sendRequest h st) = fetched st"
proof (cases "url st = []")
  case True
  then show ?thesis by (simp add: sendRequest_empty)
next
  case False
  then show ?thesis using assms by (simp add: sendRequest_thrown fetched_on_error)
qed

text \<open>
  C4 (amended). For every non-empty URL string that \<^verbatim>\<open>new URL\<close> rejects, the run
  ends with a status 0 record whose error message is the \<^verbatim>\<open>Invalid URL\<close> text built
  around the offending string, which therefore occurs in it, and no network call is
  made.
\<close>

theorem invalid_url_reported:
  assumes "url st \<noteq> []" and "\<not> url_ok h (url st)"
  shows "reports_InvalidUrl (sendRequest h st) (url st)
       \<and> (\<exists>r e. response (sendRequest h st) = Some r \<and> error r = Some e
                 \<and> str_includes (message e) (url st))
       \<and> fetched (sendRequest h st) = fetched st"
proof -
  let ?msg = "''Invalid URL: '' @ url st
               @ ''. Make sure to include the protocol (http:// or https://).''"
  have b: "build_options h st = Inl (new_Error h ?msg)"
    using assms(2) by (rule build_options_invalid_url)
  have m: "or_else (e_message (new_Error h ?msg)) ''Unknown error occurred'' = ?msg"
    by (simp add: new_Error_def or_else_nonempty)
  have r: "response (sendRequest h st) = Some
              \<lparr>status = 0, statusText = ''Error'', headers = Map.empty,
               data = Text ?msg, time = now h 1 - now h 0,
               error = Some \<lparr>message = ?msg, stack = e_stack (new_Error h ?msg),
                             code = None, type_name = Some (e_name (new_Error h ?msg)),
                             details = Some (formatErrorDetails (ErrorInstance (new_Error h ?msg)))\<rparr>\<rparr>"
    unfolding sendRequest_thrown [OF assms(1) b] using m
    by (simp add: response_on_error)
  have 1: "reports_InvalidUrl (sendRequest h st) (url st)"
    by (simp add: reports_InvalidUrl_def r)
  have "str_includes ?msg (url st)"
    unfolding str_includes_iff by blast
  then have 2: "\<exists>r e. response (sendRequest h st) = Some r \<and> error r = Some e
                 \<and> str_includes (message e) (url st)"
    by (simp add: r)
  have 3: "fetched (sendRequest h st) = fetched st"
    using b by (rule fetched_thrown)
  from 1 2 3 show ?thesis by blast
qed

theorem invalid_url_reported_witness:
  "reports_InvalidUrl (sendRequest sample_host (sample_state ''example.org'' GET [])) ''example.org''
   \<and> fetched (sendRequest sample_host (sample_state ''example.org'' GET [])) = []"
  using invalid_url_reported [of "sample_state ''example.org'' GET []" sample_host]
  by (simp add: sample_state_def sample_host_def)

text \<open>
  C4 as stated fails at the empty string: it is not a well-formed URL, yet the early
  return reports nothing and produces no record.
\<close>

theorem empty_url_not_reported_invalid:
  "\<not> url_ok sample_host []
   \<and> \<not> reports_InvalidUrl (sendRequest sample_host (sample_state [] GET [])) []
   \<and> response (sendRequest sample_host (sample_state [] GET [])) = None"
  by (simp add: sendRequest_empty sample_state_def sample_host_def reports_InvalidUrl_def)

text \<open>
  C5 (amended). For a method other than GET and HEAD with a non-empty body that
  \<^verbatim>\<open>JSON.parse\<close> rejects, no network call is made, whatever the URL; and when the URL
  is non-empty and well-formed, the run ends with a status 0 record whose error message
  is the \<^verbatim>\<open>Invalid JSON in request body\<close> text built around the parser's message.
\<close>

theorem invalid_body_reported:
  assumes "method st \<noteq> GET" and "method st \<noteq> HEAD" and "body st \<noteq> []"
    and "json_parse h (body st) = Inl pe"
  shows "fetched (sendRequest h st) = fetched st
       \<and> (url st \<noteq> [] \<and> url_ok h (url st) \<longrightarrow>
            reports_InvalidRequestBody (sendRequest h st) (e_message pe))"
proof -
  let ?msg = "''Invalid JSON in request body: '' @ e_message pe
                         @ ''. Please check your JSON syntax.''"
  have "\<exists>e. build_options h st = Inl e"
  proof (cases "url_ok h (url st)")
    case True
    then show ?thesis using assms build_options_invalid_body by blast
  next
    case False
    then show ?thesis using build_options_invalid_url by blast
  qed
  then have 1: "fetched (sendRequest h st) = fetched st"
    using fetched_thrown by blast
  have 2: "reports_InvalidRequestBody (sendRequest h st) (e_message pe)"
    if u: "url st \<noteq> []" and ok: "url_ok h (url st)"
  proof -
    have b: "build_options h st = Inl (new_Error h ?msg)"
      using ok assms by (rule build_options_invalid_body)
    have m: "or_else (e_message (new_Error h ?msg)) ''Unknown error occurred'' = ?msg"
      by (simp add: new_Error_def or_else_nonempty)
    show ?thesis
      unfolding sendRequest_thrown [OF u b] using m
      by (simp add: reports_InvalidRequestBody_def response_on_error)
  qed
  from 1 2 show ?thesis by blast
qed

theorem invalid_body_reported_witness:
  "fetched (sendRequest sample_host (sample_state ''http://ok.test'' POST ''[1,'')) = []
   \<and> reports_InvalidRequestBody
        (sendRequest sample_host (sample_state ''http://ok.test'' POST ''[1,''))
        ''Unexpected end of JSON input''"
  using invalid_body_reported [of "sample_state ''http://ok.test'' POST ''[1,''" sample_host
      "\<lparr>e_class = SyntaxError, e_name = ''SyntaxError'',
        e_message = ''Unexpected end of JSON input'', e_stack = None\<rparr>"]
  by (simp add: sample_state_def sample_host_def)

text \<open>
  C5 as stated fails when the URL is not well-formed: the URL is checked first, so the
  failure reported is the one about the URL.
\<close>

theorem invalid_body_behind_invalid_url:
  "json_parse sample_host ''[1,'' =
      Inl \<lparr>e_class = SyntaxError, e_name = ''SyntaxError'',
            e_message = ''Unexpected end of JSON input'', e_stack = None\<rparr>
   \<and> \<not> reports_InvalidRequestBody
        (sendRequest sample_host (sample_state ''example.org'' POST ''[1,''))
        ''Unexpected end of JSON input''
   \<and> reports_InvalidUrl
        (sendRequest sample_host (sample_state ''example.org'' POST ''[1,'')) ''example.org''"
proof -
  have u: "url (sample_state ''example.org'' POST ''[1,'') \<noteq> []"
    by (simp add: sample_state_def)
  have b: "build_options sample_host (sample_state ''example.org'' POST ''[1,'') =
     Inl (new_Error sample_host (''Invalid URL: '' @ ''example.org''
               @ ''. Make sure to include the protocol (http:// or https://).''))"
    by (simp add: build_options_def sample_state_def sample_host_def)
  show ?thesis
    unfolding sendRequest_thrown [OF u b]
    by (simp add: response_on_error reports_InvalidRequestBody_def reports_InvalidUrl_def
        new_Error_def or_else_def truthy_def sample_host_def)
qed

subsection \<open>The network call\<close>

lemma fetched_sendRequest:
  assumes "url st \<noteq> []"
  shows "fetched (sendRequest h st) =
     (case build_options h st of
        Inl e \<Rightarrow> fetched st
      | Inr opts \<Rightarrow> fetched st @ [(url st, opts)])"
proof (cases "build_options h st")
  case (Inl e)
  then show ?thesis by (simp add: fetched_thrown)
next
  case (Inr opts)
  show ?thesis
  proof (cases "fetch h (url st) opts")
    case (Inl e)
    show ?thesis
      unfolding sendRequest_rejected [OF assms Inr Inl]
      by (simp add: Inr fetched_on_error)
  next
    case r: (Inr res)
    show ?thesis
      unfolding sendRequest_resolved [OF assms Inr r]
      by (simp add: Inr fetched_on_response)
  qed
qed

text \<open>
  C2 (amended). A run with a non-empty URL issues one network call when the options
  are built and none when building them throws. Every call carries the header
  \<^verbatim>\<open>Content-Type: application/json\<close>, whether or not a body is sent; the body string is
  attached, as it is, exactly when the method is neither GET nor HEAD and the string is
  non-empty.
\<close>

theorem content_type_on_every_call:
  assumes "url st \<noteq> []"
  shows "fetched (sendRequest h st) =
           (case build_options h st of
              Inl e \<Rightarrow> fetched st
            | Inr opts \<Rightarrow> fetched st @ [(url st, opts)])
       \<and> (\<forall>opts. build_options h st = Inr opts \<longrightarrow>
             o_headers opts = [(''Content-Type'', ''application/json'')]
             \<and> o_body opts =
                 (if method st \<noteq> GET \<and> method st \<noteq> HEAD \<and> body st \<noteq> []
                  then Some (body st) else None))"
proof -
  have "o_headers opts = [(''Content-Type'', ''application/json'')]
        \<and> o_body opts =
            (if method st \<noteq> GET \<and> method st \<noteq> HEAD \<and> body st \<noteq> []
             then Some (body st) else None)"
    if "build_options h st = Inr opts" for opts
    using build_options_Inr [OF that] by simp
  then show ?thesis
    using fetched_sendRequest [OF assms] by blast
qed

theorem content_type_on_every_call_witness:
  "fetched (sendRequest sample_host (sample_state ''http://ok.test'' POST ''[1]'')) =
     [(''http://ok.test'',
       \<lparr>o_method = POST, o_headers = [(''Content-Type'', ''application/json'')],
        o_body = Some ''[1]''\<rparr>)]"
proof -
  have b: "build_options sample_host (sample_state ''http://ok.test'' POST ''[1]'') =
     Inr \<lparr>o_method = POST, o_headers = [(''Content-Type'', ''application/json'')],
        o_body = Some ''[1]''\<rparr>"
    by (simp add: build_options_def sample_state_def sample_host_def truthy_def)
  show ?thesis
    using content_type_on_every_call
      [of "sample_state ''http://ok.test'' POST ''[1]''" sample_host]
    by (simp add: b) (simp add: sample_state_def)
qed

text \<open>
  C2 as stated fails on a GET request: the call is made without a body and with the
  header.
\<close>

theorem content_type_without_body:
  "fetched (sendRequest sample_host (sample_state ''http://ok.test'' GET [])) =
     [(''http://ok.test'',
       \<lparr>o_method = GET, o_headers = [(''Content-Type'', ''application/json'')],
        o_body = None\<rparr>)]"
proof -
  have u: "url (sample_state ''http://ok.test'' GET []) \<noteq> []"
    by (simp add: sample_state_def)
  have b: "build_options sample_host (sample_state ''http://ok.test'' GET []) =
     Inr \<lparr>o_method = GET, o_headers = [(''Content-Type'', ''application/json'')],
        o_body = None\<rparr>"
    by (simp add: build_options_def sample_state_def sample_host_def truthy_def)
  show ?thesis
    by (simp add: fetched_sendRequest [OF u] b) (simp add: sample_state_def)
qed

lemma build_options_no_body:
  assumes "method st = GET \<or> method st = HEAD"
  shows "build_options h st =
     (if \<not> url_ok h (url st) then
        Inl (new_Error h (''Invalid URL: '' @ url st
               @ ''. Make sure to include the protocol (http:// or https://).''))
      else Inr \<lparr>o_method = method st,
                 o_headers = [(''Content-Type'', ''application/json'')],
                 o_body = None\<rparr>)"
  using assms by (auto simp add: build_options_def Let_def)

text \<open>
  C6. For a GET or HEAD request the body string is ignored: the run with any other
  body string ends in the same state (but for the body cell itself), the options built,
  or the error thrown, depend neither on the body string nor on the JSON parser, and
  the options carry no body.
\<close>

theorem get_head_ignore_body:
  assumes "method st = GET \<or> method st = HEAD"
  shows "sendRequest h (st\<lparr>body := b\<rparr>) = (sendRequest h st)\<lparr>body := b\<rparr>
       \<and> build_options (h\<lparr>json_parse := p\<rparr>) (st\<lparr>body := b\<rparr>) = build_options h st
       \<and> (\<forall>opts. build_options h st = Inr opts \<longrightarrow> o_body opts = None)"
proof -
  have m: "method (st\<lparr>body := b\<rparr>) = GET \<or> method (st\<lparr>body := b\<rparr>) = HEAD"
    using assms by simp
  have bo: "build_options h (st\<lparr>body := b\<rparr>) = build_options h st"
    by (simp add: build_options_no_body [OF m] build_options_no_body [OF assms])
  have 1: "sendRequest h (st\<lparr>body := b\<rparr>) = (sendRequest h st)\<lparr>body := b\<rparr>"
  proof (cases "url st = []")
    case True
    then show ?thesis by (simp add: sendRequest_empty)
  next
    case False
    then have u: "url (st\<lparr>body := b\<rparr>) \<noteq> []" by simp
    show ?thesis
    proof (cases "build_options h st")
      case (Inl e)
      then have "build_options h (st\<lparr>body := b\<rparr>) = Inl e" using bo by simp
      from sendRequest_thrown [OF u this] sendRequest_thrown [OF False Inl]
      show ?thesis by (simp add: on_error_def Let_def)
    next
      case (Inr opts)
      then have b': "build_options h (st\<lparr>body := b\<rparr>) = Inr opts" using bo by simp
      show ?thesis
      proof (cases "fetch h (url st) opts")
        case (Inl e)
        then have "fetch h (url (st\<lparr>body := b\<rparr>)) opts = Inl e" by simp
        from sendRequest_rejected [OF u b' this] sendRequest_rejected [OF False Inr Inl]
        show ?thesis by (simp add: on_error_def Let_def)
      next
        case r: (Inr res)
        then have "fetch h (url (st\<lparr>body := b\<rparr>)) opts = Inr res" by simp
        from sendRequest_resolved [OF u b' this] sendRequest_resolved [OF False Inr r]
        show ?thesis by (simp add: on_response_def Let_def)
      qed
    qed
  qed
  have 2: "build_options (h\<lparr>json_parse := p\<rparr>) (st\<lparr>body := b\<rparr>) = build_options h st"
    by (simp add: build_options_no_body [OF m] build_options_no_body [OF assms] new_Error_def)
  have 3: "\<forall>opts. build_options h st = Inr opts \<longrightarrow> o_body opts = None"
    using build_options_Inr assms by fastforce
  from 1 2 3 show ?thesis by blast
qed

theorem get_head_ignore_body_witness:
  "sendRequest sample_host (sample_state ''http://ok.test'' HEAD ''[1,'') =
     (sendRequest sample_host (sample_state ''http://ok.test'' HEAD []))\<lparr>body := ''[1,''\<rparr>"
  using get_head_ignore_body [of "sample_state ''http://ok.test'' HEAD []" sample_host "''[1,''"]
  by (simp add: sample_state_def)

subsection \<open>The response record\<close>

lemma response_thrown_or_rejected:
  assumes "url st \<noteq> []"
    and "build_options h st = Inl e
         \<or> (\<exists>opts. build_options h st = Inr opts \<and> fetch h (url st) opts = Inl e)"
  shows "response (sendRequest h st) = Some
              \<lparr>status = 0,
               statusText = ''Error'',
               headers = Map.empty,
               data = Text (or_else (e_message e) ''Unknown error occurred''),
               time = now h 1 - now h 0,
               error = Some \<lparr>message = or_else (e_message e) ''Unknown error occurred'',
                             stack = e_stack e,
                             code = None,
                             type_name = Some (e_name e),
                             details = Some (formatErrorDetails (ErrorInstance e))\<rparr>\<rparr>"
  using assms(2)
proof
  assume b: "build_options h st = Inl e"
  show ?thesis
    unfolding sendRequest_thrown [OF assms(1) b] by (simp add: response_on_error)
next
  assume "\<exists>opts. build_options h st = Inr opts \<and> fetch h (url st) opts = Inl e"
  then obtain opts where b: "build_options h st = Inr opts"
    and f: "fetch h (url st) opts = Inl e" by blast
  show ?thesis
    unfolding sendRequest_rejected [OF assms(1) b f] by (simp add: response_on_error)
qed

lemma response_resolved:
  assumes "url st \<noteq> []" and "build_options h st = Inr opts"
    and "fetch h (url st) opts = Inr res"
  shows "response (sendRequest h st) = Some
                  \<lparr>status = res_status res,
                   statusText = res_statusText res,
                   headers = collect_headers (res_headers_forEach res),
                   data = decode_body h res,
                   time = now h 1 - now h 0,
                   error = None\<rparr>"
  unfolding sendRequest_resolved [OF assms] by (simp add: response_on_response)

lemma foldl_headers_lookup:
  "foldl (\<lambda>hs (key, v). if key = ''__proto__'' then hs else hs(key \<mapsto> v)) m kvs k =
     (if k = ''__proto__'' then m k
      else (case map_of (rev kvs) k of Some v \<Rightarrow> Some v | None \<Rightarrow> m k))"
proof (induction kvs arbitrary: m)
  case Nil
  then show ?case by simp
next
  case (Cons kv kvs)
  obtain key v where kv: "kv = (key, v)" by (cases kv)
  show ?case
    unfolding kv by (simp add: Cons.IH map_add_def split: option.splits)
qed

text \<open>
  The header object holds, for every name other than \<^verbatim>\<open>__proto__\<close>, the value of the
  last pair of that name, and nothing under \<^verbatim>\<open>__proto__\<close>.
\<close>

lemma collect_headers_lookup:
  "collect_headers kvs k = (if k = ''__proto__'' then None else map_of (rev kvs) k)"
  unfolding collect_headers_def foldl_headers_lookup
  by (simp split: option.splits)

lemma collect_headers_dom:
  "dom (collect_headers kvs) = fst ` set kvs - {''__proto__''}"
proof -
  have "dom (map_of (rev kvs)) = fst ` set kvs"
    by (simp add: dom_map_of_conv_image_fst)
  then show ?thesis
    by (auto simp add: dom_def collect_headers_lookup)
qed

lemma formatErrorDetails_ErrorInstance:
  "formatErrorDetails (ErrorInstance e) =
     ''Error Type: '' @ e_name e @ NL @ ''Message: '' @ e_message e
     @ (case e_stack e of
          None \<Rightarrow> []
        | Some s \<Rightarrow> if s \<noteq> [] then NL @ NL @ ''Stack Trace:'' @ NL @ s else [])
     @ class_note (e_class e)"
  by (simp add: formatErrorDetails_def truthy_def split: option.splits)

text \<open>
  C3 (amended). A run with a non-empty URL fails when building the options throws or
  when \<^verbatim>\<open>fetch\<close> rejects. Either way the record has status 0, status text
  \<^verbatim>\<open>Error\<close>, no headers, the message of its error block as body, the elapsed time,
  and an error block with the message (the error's own when it has one,
  \<^verbatim>\<open>Unknown error occurred\<close> otherwise), the error's name, its stack when it has one,
  and the details text: type and message, the stack trace when there is one, and the
  paragraph of the error's class. Once \<^verbatim>\<open>fetch\<close> has resolved, the record has the
  status of the response received and no error block, so status 0 never stands for a
  response with an error status.
\<close>

theorem failure_paths_give_status_0:
  assumes "url st \<noteq> []"
  shows "(\<forall>e. build_options h st = Inl e
              \<or> (\<exists>opts. build_options h st = Inr opts \<and> fetch h (url st) opts = Inl e) \<longrightarrow>
            (\<exists>r blk. response (sendRequest h st) = Some r
               \<and> status r = 0
               \<and> statusText r = ''Error''
               \<and> headers r = Map.empty
               \<and> data r = Text (message blk)
               \<and> time r = now h 1 - now h 0
               \<and> error r = Some blk
               \<and> message blk =
                   (if e_message e \<noteq> [] then e_message e else ''Unknown error occurred'')
               \<and> type_name blk = Some (e_name e)
               \<and> stack blk = e_stack e
               \<and> code blk = None
               \<and> details blk = Some
                   (''Error Type: '' @ e_name e @ NL @ ''Message: '' @ e_message e
                    @ (case e_stack e of
                         None \<Rightarrow> []
                       | Some s \<Rightarrow>
                           if s \<noteq> [] then NL @ NL @ ''Stack Trace:'' @ NL @ s else [])
                    @ class_note (e_class e))))
       \<and> (\<forall>opts res. build_options h st = Inr opts \<and> fetch h (url st) opts = Inr res \<longrightarrow>
            (\<exists>r. response (sendRequest h st) = Some r
               \<and> status r = res_status res
               \<and> error r = None
               \<and> (res_status res \<noteq> 0 \<longrightarrow> status r \<noteq> 0)))"
proof -
  have 1: "\<exists>r blk. response (sendRequest h st) = Some r
               \<and> status r = 0
               \<and> statusText r = ''Error''
               \<and> headers r = Map.empty
               \<and> data r = Text (message blk)
               \<and> time r = now h 1 - now h 0
               \<and> error r = Some blk
               \<and> message blk =
                   (if e_message e \<noteq> [] then e_message e else ''Unknown error occurred'')
               \<and> type_name blk = Some (e_name e)
               \<and> stack blk = e_stack e
               \<and> code blk = None
               \<and> details blk = Some
                   (''Error Type: '' @ e_name e @ NL @ ''Message: '' @ e_message e
                    @ (case e_stack e of
                         None \<Rightarrow> []
                       | Some s \<Rightarrow>
                           if s \<noteq> [] then NL @ NL @ ''Stack Trace:'' @ NL @ s else [])
                    @ class_note (e_class e))"
    if "build_options h st = Inl e
        \<or> (\<exists>opts. build_options h st = Inr opts \<and> fetch h (url st) opts = Inl e)" for e
    using response_thrown_or_rejected [OF assms that]
    by (simp add: or_else_def truthy_def formatErrorDetails_ErrorInstance)
  have 2: "\<exists>r. response (sendRequest h st) = Some r
               \<and> status r = res_status res
               \<and> error r = None
               \<and> (res_status res \<noteq> 0 \<longrightarrow> status r \<noteq> 0)"
    if "build_options h st = Inr opts \<and> fetch h (url st) opts = Inr res" for opts res
    using that response_resolved [OF assms, of h opts res] by simp
  from 1 2 show ?thesis by blast
qed

theorem failure_paths_give_status_0_witness:
  "response (sendRequest sample_host (sample_state ''http://lost.test'' GET [])) = Some
     \<lparr>status = 0, statusText = ''Error'', headers = Map.empty,
      data = Text ''Load failed'', time = 42,
      error = Some
        \<lparr>message = ''Load failed'', stack = None, code = None,
         type_name = Some ''TypeError'',
         details = Some
           (''Error Type: TypeError'' @ NL @ ''Message: Load failed''
            @ NL @ NL @ ''This is a TypeError, which often occurs when:''
            @ NL @ ''- Trying to access properties of undefined or null''
            @ NL @ ''- Calling a non-function value''
            @ NL @ ''- Incompatible value types in an operation'')\<rparr>\<rparr>
   \<and> map_option status
     (response (sendRequest sample_host (sample_state ''http://missing.test'' GET []))) = Some 404"
proof -
  have u: "url (sample_state ''http://lost.test'' GET []) \<noteq> []"
    and u': "url (sample_state ''http://missing.test'' GET []) \<noteq> []"
    by (simp_all add: sample_state_def)
  have b: "build_options sample_host (sample_state ''http://lost.test'' GET []) =
     Inr \<lparr>o_method = GET, o_headers = [(''Content-Type'', ''application/json'')],
          o_body = None\<rparr>"
    and b': "build_options sample_host (sample_state ''http://missing.test'' GET []) =
     Inr \<lparr>o_method = GET, o_headers = [(''Content-Type'', ''application/json'')],
          o_body = None\<rparr>"
    by (simp_all add: build_options_def sample_state_def sample_host_def)
  have f: "fetch sample_host (url (sample_state ''http://lost.test'' GET []))
      \<lparr>o_method = GET, o_headers = [(''Content-Type'', ''application/json'')], o_body = None\<rparr>
    = Inl \<lparr>e_class = TypeError, e_name = ''TypeError'',
           e_message = ''Load failed'', e_stack = None\<rparr>"
    and f': "fetch sample_host (url (sample_state ''http://missing.test'' GET []))
      \<lparr>o_method = GET, o_headers = [(''Content-Type'', ''application/json'')], o_body = None\<rparr>
    = Inr (sample_response 404 ''Not Found'' ''application/json'' ''[1]'')"
    by (simp_all add: sample_state_def sample_host_def)
  have s: "res_status (sample_response 404 ''Not Found'' ''application/json'' ''[1]'') = 404"
    by (simp add: sample_response_def)
  have t: "now sample_host 1 - now sample_host 0 = 42"
    by (simp add: sample_host_def)
  have 1: "response (sendRequest sample_host (sample_state ''http://lost.test'' GET [])) = Some
     \<lparr>status = 0, statusText = ''Error'', headers = Map.empty,
      data = Text ''Load failed'', time = 42,
      error = Some
        \<lparr>message = ''Load failed'', stack = None, code = None,
         type_name = Some ''TypeError'',
         details = Some
           (''Error Type: TypeError'' @ NL @ ''Message: Load failed''
            @ NL @ NL @ ''This is a TypeError, which often occurs when:''
            @ NL @ ''- Trying to access properties of undefined or null''
            @ NL @ ''- Calling a non-function value''
            @ NL @ ''- Incompatible value types in an operation'')\<rparr>\<rparr>"
    using failure_paths_give_status_0 [OF u, of sample_host] b f t
    by (fastforce simp add: class_note_def)
  have 2: "map_option status
     (response (sendRequest sample_host (sample_state ''http://missing.test'' GET []))) = Some 404"
    using failure_paths_give_status_0 [OF u', of sample_host] b' f' s
    by fastforce
  from 1 2 show ?thesis by blast
qed

text \<open>
  C3 as stated fails on the submission with an empty URL: it fails, with the toast
  "URL is required" and without a network call, and no record is produced.
\<close>

theorem empty_url_fails_without_record:
  "toasts (sendRequest sample_host (sample_state [] POST ''[1]'')) =
     [\<lparr>title = ''URL is required'',
       description = ''Please enter a URL to send the request'',
       variant = Some ''destructive''\<rparr>]
   \<and> fetched (sendRequest sample_host (sample_state [] POST ''[1]'')) = []
   \<and> response (sendRequest sample_host (sample_state [] POST ''[1]'')) = None"
  by (simp add: sendRequest_empty sample_state_def)

text \<open>
  In the record a run produces, the error block is present exactly when the status is
  0, and a received response gives the record with its own status and status text, its
  decoded body and no error block; its headers are those of the response under every
  name but \<^verbatim>\<open>__proto__\<close>. The hypothesis on the host says that a response \<^verbatim>\<open>fetch\<close>
  resolves with has a status other than 0, as every response to a request in the default
  mode of \<^verbatim>\<open>fetch\<close> has.
\<close>

lemma error_block_iff_status_0:
  assumes "url st \<noteq> []"
    and "\<forall>opts res. fetch h (url st) opts = Inr res \<longrightarrow> res_status res \<noteq> 0"
  shows "\<exists>r. response (sendRequest h st) = Some r
       \<and> ((error r \<noteq> None) = (status r = 0))
       \<and> (\<forall>opts res. build_options h st = Inr opts \<and> fetch h (url st) opts = Inr res \<longrightarrow>
             r = \<lparr>status = res_status res,
                  statusText = res_statusText res,
                  headers = collect_headers (res_headers_forEach res),
                  data = decode_body h res,
                  time = now h 1 - now h 0,
                  error = None\<rparr>
             \<and> (\<forall>k. headers r k =
                   (if k = ''__proto__'' then None
                    else map_of (rev (res_headers_forEach res)) k)))"
proof (cases "build_options h st")
  case (Inl e)
  then show ?thesis
    using response_thrown_or_rejected [OF assms(1), of h e] by simp
next
  case (Inr opts)
  show ?thesis
  proof (cases "fetch h (url st) opts")
    case (Inl e)
    then show ?thesis
      using response_thrown_or_rejected [OF assms(1), of h e] Inr by simp
  next
    case r: (Inr res)
    then have "res_status res \<noteq> 0" using assms(2) by blast
    then show ?thesis
      using response_resolved [OF assms(1) Inr r] Inr r
      by (simp add: collect_headers_lookup)
  qed
qed

text \<open>
  C10 fails on the headers. The server of the sample host that answers 404 with the
  headers \<^verbatim>\<open>__proto__\<close> and \<^verbatim>\<open>content-type\<close> gives a record with the status 404, the
  decoded body and no error block, as the claim says, but with one header only: the
  header \<^verbatim>\<open>__proto__\<close> of the response is not in the record.
\<close>

theorem proto_header_dropped:
  "res_headers_forEach proto_response =
     [(''__proto__'', ''x''), (''content-type'', ''text/plain'')]
   \<and> response (sendRequest sample_host (sample_state ''http://proto.test'' GET [])) = Some
       \<lparr>status = 404, statusText = ''Not Found'',
        headers = [''content-type'' \<mapsto> ''text/plain''],
        data = Text ''gone'', time = 42, error = None\<rparr>"
proof -
  have u: "url (sample_state ''http://proto.test'' GET []) \<noteq> []"
    by (simp add: sample_state_def)
  have nz: "\<forall>opts res.
      fetch sample_host (url (sample_state ''http://proto.test'' GET [])) opts = Inr res
        \<longrightarrow> res_status res \<noteq> 0"
    by (simp add: sample_state_def sample_host_def proto_response_def)
  have b: "build_options sample_host (sample_state ''http://proto.test'' GET []) =
     Inr \<lparr>o_method = GET, o_headers = [(''Content-Type'', ''application/json'')],
          o_body = None\<rparr>"
    by (simp add: build_options_def sample_state_def sample_host_def)
  have f: "fetch sample_host (url (sample_state ''http://proto.test'' GET []))
      \<lparr>o_method = GET, o_headers = [(''Content-Type'', ''application/json'')], o_body = None\<rparr>
    = Inr proto_response"
    by (simp add: sample_state_def sample_host_def)
  have hs: "collect_headers (res_headers_forEach proto_response) =
      [''content-type'' \<mapsto> ''text/plain'']"
    by (simp add: collect_headers_def proto_response_def)
  have d: "decode_body sample_host proto_response = Text ''gone''"
    by (simp add: decode_body_def proto_response_def truthy_def trim_def isWhiteSpace_def)
  have t: "now sample_host 1 - now sample_host 0 = 42"
    by (simp add: sample_host_def)
  have "response (sendRequest sample_host (sample_state ''http://proto.test'' GET [])) = Some
       \<lparr>status = res_status proto_response, statusText = res_statusText proto_response,
        headers = collect_headers (res_headers_forEach proto_response),
        data = decode_body sample_host proto_response,
        time = now sample_host 1 - now sample_host 0, error = None\<rparr>"
    using error_block_iff_status_0 [OF u nz] b f by fastforce
  then show ?thesis
    unfolding hs d t by (simp add: proto_response_def)
qed

subsection \<open>Decoding the response body\<close>

lemma str_includes_nonempty: "str_includes s t \<Longrightarrow> t \<noteq> [] \<Longrightarrow> s \<noteq> []"
  by (cases s) auto

lemma content_type_test:
  "(case res_headers_get res ''content-type'' of
      None \<Rightarrow> False
    | Some ct \<Rightarrow> truthy ct \<and> str_includes ct ''application/json'')
   = (\<exists>ct. res_headers_get res ''content-type'' = Some ct
           \<and> str_includes ct ''application/json'')"
proof (cases "res_headers_get res ''content-type''")
  case None
  then show ?thesis by simp
next
  case (Some ct)
  have "str_includes ct ''application/json'' \<Longrightarrow> truthy ct"
    using str_includes_nonempty [of ct "''application/json''"] by (simp add: truthy_def)
  then show ?thesis using Some by auto
qed

text \<open>
  C7. The body of a received response is decoded as follows. When the
  \<^verbatim>\<open>content-type\<close> header contains \<^verbatim>\<open>application/json\<close>, the body is the value
  \<^verbatim>\<open>res.json()\<close> gives (and the text \<^verbatim>\<open>Failed to parse response: ...\<close> when it
  fails). Otherwise the body is read as text; when the trimmed text starts with an
  opening brace or bracket and \<^verbatim>\<open>JSON.parse\<close> accepts the text, the body is the parsed
  value; in every other case it is the raw text.
\<close>

theorem response_body_decoding:
  assumes "url st \<noteq> []" and "build_options h st = Inr opts"
    and "fetch h (url st) opts = Inr res"
  shows "\<exists>r. response (sendRequest h st) = Some r \<and>
     (if (\<exists>ct. res_headers_get res ''content-type'' = Some ct
              \<and> str_includes ct ''application/json'')
      then (case res_json res of
              Inr j \<Rightarrow> data r = Json j
            | Inl e \<Rightarrow> data r = Text (''Failed to parse response: '' @ e_message e))
      else (case res_text res of
              Inr txt \<Rightarrow>
                (if startsWith (trim txt) ''{'' \<or> startsWith (trim txt) ''[''
                 then (case json_parse h txt of
                         Inr j \<Rightarrow> data r = Json j
                       | Inl e \<Rightarrow> data r = Text txt)
                 else data r = Text txt)
            | Inl e \<Rightarrow> data r = Text (''Failed to parse response: '' @ e_message e)))"
proof -
  define J where "J = (\<exists>ct. res_headers_get res ''content-type'' = Some ct
              \<and> str_includes ct ''application/json'')"
  define r where "r = \<lparr>status = res_status res,
                   statusText = res_statusText res,
                   headers = collect_headers (res_headers_forEach res),
                   data = decode_body h res,
                   time = now h 1 - now h 0,
                   error = None\<rparr>"
  have r: "response (sendRequest h st) = Some r"
    unfolding r_def by (rule response_resolved [OF assms])
  have "data r = decode_body h res"
    by (simp add: r_def)
  then have d: "data r =
     (if J then
        (case res_json res of
           Inr j \<Rightarrow> Json j
         | Inl e \<Rightarrow> Text (''Failed to parse response: '' @ e_message e))
      else
        (case res_text res of
           Inr txt \<Rightarrow>
             if startsWith (trim txt) ''{'' \<or> startsWith (trim txt) ''['' then
               (case json_parse h txt of Inr j \<Rightarrow> Json j | Inl _ \<Rightarrow> Text txt)
             else Text txt
         | Inl e \<Rightarrow> Text (''Failed to parse response: '' @ e_message e)))"
    unfolding J_def decode_body_def Let_def content_type_test .
  have "if J
      then (case res_json res of
              Inr j \<Rightarrow> data r = Json j
            | Inl e \<Rightarrow> data r = Text (''Failed to parse response: '' @ e_message e))
      else (case res_text res of
              Inr txt \<Rightarrow>
                (if startsWith (trim txt) ''{'' \<or> startsWith (trim txt) ''[''
                 then (case json_parse h txt of
                         Inr j \<Rightarrow> data r = Json j
                       | Inl e \<Rightarrow> data r = Text txt)
                 else data r = Text txt)
            | Inl e \<Rightarrow> data r = Text (''Failed to parse response: '' @ e_message e))"
  proof (cases J)
    case True
    then show ?thesis by (cases "res_json res") (simp_all add: d)
  next
    case False
    show ?thesis
    proof (cases "res_text res")
      case (Inl e)
      then show ?thesis using False by (simp add: d)
    next
      case (Inr body_text)
      then show ?thesis using False
        by (cases "json_parse h body_text") (simp_all add: d)
    qed
  qed
  then show ?thesis
    unfolding J_def using r by blast
qed

theorem response_body_decoding_witness:
  "map_option data
     (response (sendRequest sample_host (sample_state ''http://ok.test'' GET [])))
     = Some (Json (JArray [JNumber 1]))"
proof -
  have u: "url (sample_state ''http://ok.test'' GET []) \<noteq> []"
    by (simp add: sample_state_def)
  have b: "build_options sample_host (sample_state ''http://ok.test'' GET []) =
     Inr \<lparr>o_method = GET, o_headers = [(''Content-Type'', ''application/json'')],
          o_body = None\<rparr>"
    by (simp add: build_options_def sample_state_def sample_host_def)
  have f: "fetch sample_host (url (sample_state ''http://ok.test'' GET []))
      \<lparr>o_method = GET, o_headers = [(''Content-Type'', ''application/json'')], o_body = None\<rparr>
    = Inr (sample_response 200 ''OK'' ''text/plain'' '' [1]'')"
    by (simp add: sample_state_def sample_host_def)
  have c: "\<not> (\<exists>ct. res_headers_get (sample_response 200 ''OK'' ''text/plain'' '' [1]'')
                     ''content-type'' = Some ct \<and> str_includes ct ''application/json'')"
    by (simp add: sample_response_def)
  have t: "res_text (sample_response 200 ''OK'' ''text/plain'' '' [1]'') = Inr '' [1]''"
    by (simp add: sample_response_def)
  have s: "startsWith (trim '' [1]'') ''[''"
    by (simp add: trim_def isWhiteSpace_def)
  have p: "json_parse sample_host '' [1]'' = Inr (JArray [JNumber 1])"
    by (simp add: sample_host_def)
  from response_body_decoding [OF u b f] obtain r where
    r: "response (sendRequest sample_host (sample_state ''http://ok.test'' GET [])) = Some r"
    and d: "if (\<exists>ct. res_headers_get (sample_response 200 ''OK'' ''text/plain'' '' [1]'')
                     ''content-type'' = Some ct \<and> str_includes ct ''application/json'')
      then (case res_json (sample_response 200 ''OK'' ''text/plain'' '' [1]'') of
              Inr j \<Rightarrow> data r = Json j
            | Inl e \<Rightarrow> data r = Text (''Failed to parse response: '' @ e_message e))
      else (case res_text (sample_response 200 ''OK'' ''text/plain'' '' [1]'') of
              Inr txt \<Rightarrow>
                (if startsWith (trim txt) ''{'' \<or> startsWith (trim txt) ''[''
                 then (case json_parse sample_host txt of
                         Inr j \<Rightarrow> data r = Json j
                       | Inl e \<Rightarrow> data r = Text txt)
                 else data r = Text txt)
            | Inl e \<Rightarrow> data r = Text (''Failed to parse response: '' @ e_message e))"
    by blast
  from d have "data r = Json (JArray [JNumber 1])"
    unfolding if_not_P [OF c] t sum.case if_P [OF disjI2 [OF s]] p .
  then show ?thesis by (simp add: r)
qed

subsection \<open>The network troubleshooting note\<close>

lemma unknown_error_has_no_fetch_text:
  "\<not> str_includes ''Unknown error occurred'' ''Failed to fetch''"
  by simp

text \<open>
  C8. When \<^verbatim>\<open>fetch\<close> rejects, the record has status 0 and the error tab is rendered;
  the tab holds the network troubleshooting note exactly when the message of the error
  contains \<^verbatim>\<open>Failed to fetch\<close>. The note lists connectivity, an unreachable server,
  CORS, the certificate, firewall or proxy, and DNS as causes, and checking the URL
  among its steps.
\<close>

theorem failed_to_fetch_note:
  assumes "url st \<noteq> []" and "build_options h st = Inr opts"
    and "fetch h (url st) opts = Inl e"
  shows "\<exists>r tab. response (sendRequest h st) = Some r
       \<and> status r = 0
       \<and> render_error_tab (response (sendRequest h st)) = Some tab
       \<and> tab_help tab =
           (if str_includes (e_message e) ''Failed to fetch'' then Some network_help else None)
       \<and> note_causes network_help =
           [''No internet connection'',
            ''Server is unreachable or down'',
            ''CORS (Cross-Origin Resource Sharing) policy restriction'',
            ''Invalid SSL certificate for HTTPS requests'',
            ''Firewall or proxy blocking the connection'',
            ''DNS resolution failure'']
       \<and> ''Verify the URL is correct and the server is running''
           \<in> set (note_steps network_help)"
proof -
  define msg where "msg = or_else (e_message e) ''Unknown error occurred''"
  have r: "response (sendRequest h st) = Some
              \<lparr>status = 0,
               statusText = ''Error'',
               headers = Map.empty,
               data = Text msg,
               time = now h 1 - now h 0,
               error = Some \<lparr>message = msg,
                             stack = e_stack e,
                             code = None,
                             type_name = Some (e_name e),
                             details = Some (formatErrorDetails (ErrorInstance e))\<rparr>\<rparr>"
    unfolding msg_def using assms by (intro response_thrown_or_rejected) blast+
  have m: "str_includes msg ''Failed to fetch'' = str_includes (e_message e) ''Failed to fetch''"
  proof (cases "e_message e = []")
    case True
    then show ?thesis
      using unknown_error_has_no_fetch_text by (simp add: msg_def or_else_def truthy_def)
  next
    case False
    then show ?thesis by (simp add: msg_def or_else_nonempty)
  qed
  have "tab_help \<lparr>tab_message = msg,
                     tab_type = when_truthy (Some (e_name e)),
                     tab_code = when_truthy None,
                     tab_stack = when_truthy (e_stack e),
                     tab_details = when_truthy (Some (formatErrorDetails (ErrorInstance e))),
                     tab_help = getNetworkErrorHelp msg\<rparr> =
           (if str_includes (e_message e) ''Failed to fetch'' then Some network_help else None)"
    by (simp add: getNetworkErrorHelp_def m)
  moreover have "render_error_tab (response (sendRequest h st)) = Some
                   \<lparr>tab_message = msg,
                     tab_type = when_truthy (Some (e_name e)),
                     tab_code = when_truthy None,
                     tab_stack = when_truthy (e_stack e),
                     tab_details = when_truthy (Some (formatErrorDetails (ErrorInstance e))),
                     tab_help = getNetworkErrorHelp msg\<rparr>"
    by (simp add: r render_error_tab_def)
  moreover have "note_causes network_help =
           [''No internet connection'',
            ''Server is unreachable or down'',
            ''CORS (Cross-Origin Resource Sharing) policy restriction'',
            ''Invalid SSL certificate for HTTPS requests'',
            ''Firewall or proxy blocking the connection'',
            ''DNS resolution failure'']"
    by (simp add: network_help_def)
  moreover have "''Verify the URL is correct and the server is running''
           \<in> set (note_steps network_help)"
    by (simp add: network_help_def)
  ultimately show ?thesis
    using r by simp
qed

theorem failed_to_fetch_note_witness:
  "map_option tab_help (render_error_tab
      (response (sendRequest sample_host (sample_state ''http://down.test'' GET []))))
     = Some (Some network_help)
   \<and> map_option tab_help (render_error_tab
      (response (sendRequest sample_host (sample_state ''http://lost.test'' GET []))))
     = Some None"
proof -
  have u: "url (sample_state ''http://down.test'' GET []) \<noteq> []"
    and u': "url (sample_state ''http://lost.test'' GET []) \<noteq> []"
    by (simp_all add: sample_state_def)
  have b: "build_options sample_host (sample_state ''http://down.test'' GET []) =
     Inr \<lparr>o_method = GET, o_headers = [(''Content-Type'', ''application/json'')],
          o_body = None\<rparr>"
    and b': "build_options sample_host (sample_state ''http://lost.test'' GET []) =
     Inr \<lparr>o_method = GET, o_headers = [(''Content-Type'', ''application/json'')],
          o_body = None\<rparr>"
    by (simp_all add: build_options_def sample_state_def sample_host_def)
  have f: "fetch sample_host (url (sample_state ''http://down.test'' GET []))
      \<lparr>o_method = GET, o_headers = [(''Content-Type'', ''application/json'')], o_body = None\<rparr>
    = Inl \<lparr>e_class = TypeError, e_name = ''TypeError'',
           e_message = ''Failed to fetch'', e_stack = Some ''TypeError: Failed to fetch''\<rparr>"
    and f': "fetch sample_host (url (sample_state ''http://lost.test'' GET []))
      \<lparr>o_method = GET, o_headers = [(''Content-Type'', ''application/json'')], o_body = None\<rparr>
    = Inl \<lparr>e_class = TypeError, e_name = ''TypeError'',
           e_message = ''Load failed'', e_stack = None\<rparr>"
    by (simp_all add: sample_state_def sample_host_def)
  from failed_to_fetch_note [OF u b f] failed_to_fetch_note [OF u' b' f']
  show ?thesis by auto
qed

subsection \<open>The status explanation\<close>

text \<open>
  The template literal of the source is the heading followed by one line per status
  predicate of the table, and a line whose predicate holds occurs in it.
\<close>

lemma http_error_details_table:
  "http_error_details s t =
     explanation_heading s t
     @ concat (map (\<lambda>(p, line). NL @ (if p s then line else [])) status_predicates)"
  by (simp add: http_error_details_def explanation_heading_def status_predicates_def)

lemma matching_line_included:
  assumes "(p, line) \<in> set tbl" and "p s"
  shows "str_includes (hd_text @ concat (map (\<lambda>(p, line). NL @ (if p s then line else [])) tbl)) line"
proof -
  from assms(1) obtain xs ys where "tbl = xs @ (p, line) # ys"
    by (meson split_list)
  then have "hd_text @ concat (map (\<lambda>(p, line). NL @ (if p s then line else [])) tbl) =
      (hd_text @ concat (map (\<lambda>(p, line). NL @ (if p s then line else [])) xs) @ NL)
      @ line @ concat (map (\<lambda>(p, line). NL @ (if p s then line else [])) ys)"
    using assms(2) by simp
  then show ?thesis
    unfolding str_includes_iff by blast
qed

text \<open>
  C1 (amended). For a received response, the explanation is set exactly when the
  status lies outside 200 to 299 (when \<^verbatim>\<open>res.ok\<close> is false), so also for a 3xx
  status. It is the heading followed by one line for each status predicate, in order,
  holding the text of the predicate when the status satisfies it and empty otherwise;
  so the text of every matching predicate occurs in it.
\<close>

theorem status_explanation:
  assumes "url st \<noteq> []" and "build_options h st = Inr opts"
    and "fetch h (url st) opts = Inr res"
  shows "errorDetails (sendRequest h st) =
           (if 200 \<le> res_status res \<and> res_status res \<le> 299 then None
            else Some (http_error_details (res_status res) (res_statusText res)))
       \<and> http_error_details (res_status res) (res_statusText res) =
           explanation_heading (res_status res) (res_statusText res)
           @ concat (map (\<lambda>(p, line). NL @ (if p (res_status res) then line else []))
                       status_predicates)
       \<and> (\<forall>(p, line) \<in> set status_predicates. p (res_status res) \<longrightarrow>
             str_includes (http_error_details (res_status res) (res_statusText res)) line)"
proof -
  have 1: "errorDetails (sendRequest h st) =
           (if 200 \<le> res_status res \<and> res_status res \<le> 299 then None
            else Some (http_error_details (res_status res) (res_statusText res)))"
    unfolding sendRequest_resolved [OF assms]
    by (simp add: errorDetails_on_response res_ok_def)
  have 3: "str_includes (http_error_details (res_status res) (res_statusText res)) line"
    if "(p, line) \<in> set status_predicates" and "p (res_status res)" for p line
    unfolding http_error_details_table using that by (rule matching_line_included)
  from 1 3 http_error_details_table show ?thesis by blast
qed

theorem status_explanation_witness:
  "errorDetails (sendRequest sample_host (sample_state ''http://missing.test'' GET [])) =
     Some (http_error_details 404 ''Not Found'')
   \<and> str_includes (http_error_details 404 ''Not Found'')
        ''- Resource not found at the specified endpoint''
   \<and> errorDetails (sendRequest sample_host (sample_state ''http://ok.test'' GET [])) = None"
proof -
  have u: "url (sample_state ''http://missing.test'' GET []) \<noteq> []"
    and u': "url (sample_state ''http://ok.test'' GET []) \<noteq> []"
    by (simp_all add: sample_state_def)
  have b: "build_options sample_host (sample_state ''http://missing.test'' GET []) =
     Inr \<lparr>o_method = GET, o_headers = [(''Content-Type'', ''application/json'')],
          o_body = None\<rparr>"
    and b': "build_options sample_host (sample_state ''http://ok.test'' GET []) =
     Inr \<lparr>o_method = GET, o_headers = [(''Content-Type'', ''application/json'')],
          o_body = None\<rparr>"
    by (simp_all add: build_options_def sample_state_def sample_host_def)
  have f: "fetch sample_host (url (sample_state ''http://missing.test'' GET []))
      \<lparr>o_method = GET, o_headers = [(''Content-Type'', ''application/json'')], o_body = None\<rparr>
    = Inr (sample_response 404 ''Not Found'' ''application/json'' ''[1]'')"
    and f': "fetch sample_host (url (sample_state ''http://ok.test'' GET []))
      \<lparr>o_method = GET, o_headers = [(''Content-Type'', ''application/json'')], o_body = None\<rparr>
    = Inr (sample_response 200 ''OK'' ''text/plain'' '' [1]'')"
    by (simp_all add: sample_state_def sample_host_def)
  have s: "res_status (sample_response 404 ''Not Found'' ''application/json'' ''[1]'') = 404"
    "res_statusText (sample_response 404 ''Not Found'' ''application/json'' ''[1]'') = ''Not Found''"
    "res_status (sample_response 200 ''OK'' ''text/plain'' '' [1]'') = 200"
    by (simp_all add: sample_response_def)
  have k: "(\<lambda>s. s = 404, ''- Resource not found at the specified endpoint'')
             \<in> set status_predicates"
    by (simp add: status_predicates_def)
  from status_explanation [OF u b f] status_explanation [OF u' b' f'] k
  show ?thesis unfolding s by fastforce
qed

text \<open>
  C1 as stated fails for a response with status 300: the status is in the 3xx range
  and the explanation is set.
\<close>

theorem explanation_for_status_300:
  "map_option status
     (response (sendRequest sample_host (sample_state ''http://choices.test'' GET []))) = Some 300
   \<and> errorDetails (sendRequest sample_host (sample_state ''http://choices.test'' GET [])) =
       Some (http_error_details 300 ''Multiple Choices'')"
proof -
  have u: "url (sample_state ''http://choices.test'' GET []) \<noteq> []"
    by (simp add: sample_state_def)
  have b: "build_options sample_host (sample_state ''http://choices.test'' GET []) =
     Inr \<lparr>o_method = GET, o_headers = [(''Content-Type'', ''application/json'')],
          o_body = None\<rparr>"
    by (simp add: build_options_def sample_state_def sample_host_def)
  have f: "fetch sample_host (url (sample_state ''http://choices.test'' GET []))
      \<lparr>o_method = GET, o_headers = [(''Content-Type'', ''application/json'')], o_body = None\<rparr>
    = Inr (sample_response 300 ''Multiple Choices'' ''text/plain'' ''see other'')"
    by (simp add: sample_state_def sample_host_def)
  show ?thesis
    unfolding sendRequest_resolved [OF u b f]
    by (simp add: response_on_response errorDetails_on_response res_ok_def sample_response_def)
qed

end
